theory Spec2Isabelle
  imports Complex_Main
begin

section \<open>float64 values\<close>

text \<open>
  Go's \<^verbatim>\<open>float64\<close> is modelled by its finite values, taken as real numbers, together
  with the three special values of IEEE 754. The special values follow the IEEE rules
  that Go implements: a NaN operand gives NaN, \<open>0/0\<close>, \<open>\<infinity> - \<infinity>\<close>, \<open>0 * \<infinity>\<close> and \<open>\<infinity>/\<infinity>\<close> give
  NaN, a non-zero finite value divided by zero gives an infinity, and every comparison
  with NaN is false. There is one zero (the sign of zero is not modelled; a zero divisor
  counts as \<open>+0\<close>, which is what \<open>x - x\<close> yields).
\<close>

datatype float64 = Fin real | PInf | NInf | NaN

text \<open>
  The largest finite float64 is \<open>(2 - 2\<^sup>-\<^sup>5\<^sup>2) * 2\<^sup>1\<^sup>0\<^sup>2\<^sup>3\<close>. An operation on finite values
  overflows as rounding to nearest makes it: an exact result that is half a unit in the
  last place (\<open>2\<^sup>9\<^sup>7\<^sup>0\<close>) or more beyond the largest finite value becomes an infinity, one
  that is less beyond it becomes the largest finite value. Within the range the exact
  result is taken: rounding to 53 bits is not modelled. The general theorems below do
  not rest on that; the evaluations at concrete inputs use values that are exact in
  float64, except \<open>10\<^sup>3\<^sup>0\<^sup>8\<close>, of which only the overflow of its double matters.
\<close>

definition float64_max :: real where
  "float64_max = (2 ^ 53 - 1) * 2 ^ 971"

definition float64_round :: "real \<Rightarrow> float64" where
  "float64_round r =
     (if float64_max + 2 ^ 970 \<le> r then PInf
      else if r \<le> - (float64_max + 2 ^ 970) then NInf
      else if float64_max < r then Fin float64_max
      else if r < - float64_max then Fin (- float64_max)
      else Fin r)"

instantiation float64 :: "{zero, plus, uminus, times, divide, ord}"
begin

definition zero_float64 :: float64 where
  "zero_float64 = Fin 0"

fun uminus_float64 :: "float64 \<Rightarrow> float64" where
  "uminus_float64 (Fin a) = Fin (- a)"
| "uminus_float64 PInf = NInf"
| "uminus_float64 NInf = PInf"
| "uminus_float64 NaN = NaN"

fun plus_float64 :: "float64 \<Rightarrow> float64 \<Rightarrow> float64" where
  "plus_float64 NaN y = NaN"
| "plus_float64 x NaN = NaN"
| "plus_float64 (Fin a) (Fin b) = float64_round (a + b)"
| "plus_float64 PInf NInf = NaN"
| "plus_float64 NInf PInf = NaN"
| "plus_float64 PInf y = PInf"
| "plus_float64 NInf y = NInf"
| "plus_float64 (Fin a) y = y"

fun times_float64 :: "float64 \<Rightarrow> float64 \<Rightarrow> float64" where
  "times_float64 NaN y = NaN"
| "times_float64 x NaN = NaN"
| "times_float64 (Fin a) (Fin b) = float64_round (a * b)"
| "times_float64 (Fin a) PInf = (if a = 0 then NaN else if 0 < a then PInf else NInf)"
| "times_float64 (Fin a) NInf = (if a = 0 then NaN else if 0 < a then NInf else PInf)"
| "times_float64 PInf (Fin b) = (if b = 0 then NaN else if 0 < b then PInf else NInf)"
| "times_float64 NInf (Fin b) = (if b = 0 then NaN else if 0 < b then NInf else PInf)"
| "times_float64 PInf PInf = PInf"
| "times_float64 NInf NInf = PInf"
| "times_float64 PInf NInf = NInf"
| "times_float64 NInf PInf = NInf"

fun divide_float64 :: "float64 \<Rightarrow> float64 \<Rightarrow> float64" where
  "divide_float64 NaN y = NaN"
| "divide_float64 x NaN = NaN"
| "divide_float64 (Fin a) (Fin b) =
     (if b = 0 then (if a = 0 then NaN else if 0 < a then PInf else NInf)
      else float64_round (a / b))"
| "divide_float64 (Fin a) y = Fin 0"
| "divide_float64 PInf (Fin b) = (if 0 \<le> b then PInf else NInf)"
| "divide_float64 NInf (Fin b) = (if 0 \<le> b then NInf else PInf)"
| "divide_float64 x y = NaN"

fun less_float64 :: "float64 \<Rightarrow> float64 \<Rightarrow> bool" where
  "less_float64 NaN y = False"
| "less_float64 x NaN = False"
| "less_float64 (Fin a) (Fin b) = (a < b)"
| "less_float64 (Fin a) PInf = True"
| "less_float64 NInf (Fin b) = True"
| "less_float64 NInf PInf = True"
| "less_float64 x y = False"

fun less_eq_float64 :: "float64 \<Rightarrow> float64 \<Rightarrow> bool" where
  "less_eq_float64 NaN y = False"
| "less_eq_float64 x NaN = False"
| "less_eq_float64 (Fin a) (Fin b) = (a \<le> b)"
| "less_eq_float64 x PInf = True"
| "less_eq_float64 NInf y = True"
| "less_eq_float64 x y = False"

instance ..

end

instantiation float64 :: "{minus, inverse}"
begin

definition minus_float64 :: "float64 \<Rightarrow> float64 \<Rightarrow> float64" where
  "minus_float64 x y = x + (- y)"

definition inverse_float64 :: "float64 \<Rightarrow> float64" where
  "inverse_float64 x = divide (Fin 1) x"

instance ..

end

text \<open>\<^verbatim>\<open>math.MaxFloat64\<close>, the largest finite float64.\<close>

definition MaxFloat64 :: float64 where
  "MaxFloat64 = Fin float64_max"

text \<open>\<^verbatim>\<open>float64(n)\<close> for a slice length \<open>n\<close>.\<close>

definition float64_of_len :: "nat \<Rightarrow> float64" where
  "float64_of_len n = Fin (real n)"

text \<open>
  \<^verbatim>\<open>int(x)\<close> for a float64 \<open>x\<close>: truncation toward zero. For a value that \<^verbatim>\<open>int\<close> cannot
  hold (NaN, an infinity, a magnitude of \<open>2\<^sup>6\<^sup>3\<close> or more) Go leaves the result to the
  implementation; the value taken here is the one of amd64, \<open>-2\<^sup>6\<^sup>3\<close>.
\<close>

fun int_of_float64 :: "float64 \<Rightarrow> int" where
  "int_of_float64 (Fin r) =
     (let t = (if 0 \<le> r then \<lfloor>r\<rfloor> else \<lceil>r\<rceil>)
      in if - (2 ^ 63) \<le> t \<and> t < 2 ^ 63 then t else - (2 ^ 63))"
| "int_of_float64 x = - (2 ^ 63)"

text \<open>\<^verbatim>\<open>math.Pow(x, 2)\<close>: the square, \<open>+\<infinity>\<close> for an infinity or on overflow, NaN for NaN.\<close>

definition Pow2 :: "float64 \<Rightarrow> float64" where
  "Pow2 x = x * x"

fun is_Fin :: "float64 \<Rightarrow> bool" where
  "is_Fin (Fin a) = True"
| "is_Fin x = False"

section \<open>Package data: the dataset\<close>

text \<open>A runtime panic of the Go program.\<close>

datatype error = IndexOutOfRange | MakeChanSizeOutOfRange

record InputData =
  X :: "float64 list"
  Y :: "float64 list"

section \<open>Package regression\<close>

record Parameters =
  Mu :: float64
  Beta :: float64

text \<open>
  The loops of this package run an index over \<^verbatim>\<open>predicted\<close> and read the other slices at
  the same index; the model walks the lists together and panics where the other slice
  has run out.
\<close>

fun CalcMSE_loop :: "float64 list \<Rightarrow> float64 list \<Rightarrow> float64 \<Rightarrow> error + float64" where
  "CalcMSE_loop [] actual mse = Inr mse"
| "CalcMSE_loop (p # predicted) [] mse = Inl IndexOutOfRange"
| "CalcMSE_loop (p # predicted) (a # actual) mse =
     CalcMSE_loop predicted actual (mse + Pow2 (p - a))"

definition CalcMSE :: "float64 list \<Rightarrow> float64 list \<Rightarrow> error + float64" where
  "CalcMSE predicted actual =
     (case CalcMSE_loop predicted actual (Fin 0) of
        Inl e \<Rightarrow> Inl e
      | Inr mse \<Rightarrow> Inr (mse / float64_of_len (length predicted)))"

fun Forecast :: "float64 \<Rightarrow> float64 \<Rightarrow> float64 list \<Rightarrow> float64 list" where
  "Forecast mu beta [] = []"
| "Forecast mu beta (xi # x) = (beta * xi + mu) # Forecast mu beta x"

fun calcGradientBeta_loop ::
  "float64 list \<Rightarrow> float64 list \<Rightarrow> float64 list \<Rightarrow> float64 \<Rightarrow> error + float64" where
  "calcGradientBeta_loop [] ys xs g = Inr g"
| "calcGradientBeta_loop (p # predicted) (y # ys) (x # xs) g =
     calcGradientBeta_loop predicted ys xs (g + (y - p) * x)"
| "calcGradientBeta_loop (p # predicted) ys xs g = Inl IndexOutOfRange"

definition calcGradientBeta :: "float64 list \<Rightarrow> InputData \<Rightarrow> error + float64" where
  "calcGradientBeta predicted data =
     (case calcGradientBeta_loop predicted (Y data) (X data) (Fin 0) of
        Inl e \<Rightarrow> Inl e
      | Inr gradientBeta \<Rightarrow>
          Inr (- (Fin 2 * gradientBeta / float64_of_len (length predicted))))"

fun calcGradientMu_loop :: "float64 list \<Rightarrow> float64 list \<Rightarrow> float64 \<Rightarrow> error + float64" where
  "calcGradientMu_loop [] actual g = Inr g"
| "calcGradientMu_loop (p # predicted) [] g = Inl IndexOutOfRange"
| "calcGradientMu_loop (p # predicted) (a # actual) g =
     calcGradientMu_loop predicted actual (g + (a - p))"

definition calcGradientMu :: "float64 list \<Rightarrow> float64 list \<Rightarrow> error + float64" where
  "calcGradientMu predicted actual =
     (case calcGradientMu_loop predicted actual (Fin 0) of
        Inl e \<Rightarrow> Inl e
      | Inr gradientMu \<Rightarrow>
          Inr (- (Fin 2 * gradientMu / float64_of_len (length predicted))))"

text \<open>
  \<^verbatim>\<open>UpdateParams\<close> assigns \<^verbatim>\<open>parameters.Mu\<close> first and \<^verbatim>\<open>parameters.Beta\<close> second, both
  from the \<^verbatim>\<open>predicted\<close> computed on entry.
\<close>

definition UpdateParams :: "Parameters \<Rightarrow> InputData \<Rightarrow> float64 \<Rightarrow> error + Parameters" where
  "UpdateParams parameters data alpha =
     (let predicted = Forecast (Mu parameters) (Beta parameters) (X data) in
      case calcGradientMu predicted (Y data) of
        Inl e \<Rightarrow> Inl e
      | Inr gMu \<Rightarrow>
          (let parameters1 = parameters\<lparr>Mu := Mu parameters - alpha * gMu\<rparr> in
           case calcGradientBeta predicted data of
             Inl e \<Rightarrow> Inl e
           | Inr gBeta \<Rightarrow> Inr (parameters1\<lparr>Beta := Beta parameters1 - alpha * gBeta\<rparr>)))"

fun Normalize_loop :: "float64 list \<Rightarrow> float64 \<Rightarrow> float64 \<Rightarrow> float64 list" where
  "Normalize_loop [] minX maxX = []"
| "Normalize_loop (x # xs) minX maxX =
     ((x - minX) / (maxX - minX)) # Normalize_loop xs minX maxX"

definition Normalize :: "InputData \<Rightarrow> float64 \<Rightarrow> float64 \<Rightarrow> InputData" where
  "Normalize rawData minX maxX =
     \<lparr>X = Normalize_loop (X rawData) minX maxX, Y = Y rawData\<rparr>"

definition UnNormalize :: "Parameters \<Rightarrow> InputData \<Rightarrow> float64 \<Rightarrow> float64 \<Rightarrow> Parameters" where
  "UnNormalize parameters data minX maxX =
     parameters\<lparr>Beta := Beta parameters / (maxX - minX) - minX\<rparr>"

fun MinMax_loop :: "float64 list \<Rightarrow> float64 \<Rightarrow> float64 \<Rightarrow> float64 \<times> float64" where
  "MinMax_loop [] mn mx = (mn, mx)"
| "MinMax_loop (v # arr) mn mx =
     (let mx1 = (if mx < v then v else mx);
          mn1 = (if mn > v then v else mn)
      in MinMax_loop arr mn1 mx1)"

text \<open>\<^verbatim>\<open>MinMax\<close> reads \<^verbatim>\<open>arr[0]\<close> before its loop: an empty slice panics.\<close>

definition MinMax :: "float64 list \<Rightarrow> error + float64 \<times> float64" where
  "MinMax arr =
     (case arr of
        [] \<Rightarrow> Inl IndexOutOfRange
      | a0 # rest \<Rightarrow> Inr (MinMax_loop arr a0 a0))"

section \<open>Program calibrate: reading the tasks\<close>

record jsonInput =
  j_Outpath :: string
  j_Alpha :: "string list"
  j_NumEpochs :: "string list"
  j_Lambda :: "string list"
  j_MiniBatchSize :: "string list"

text \<open>A slice is a list; the \<^verbatim>\<open>nil\<close> slice is the empty list.\<close>

record Hyperparameters =
  Outpath :: string
  Alpha :: "float64 list"
  NumEpochs :: "float64 list"
  Lambda :: "float64 list"
  MiniBatchSize :: "float64 list"

text \<open>
  \<^verbatim>\<open>strconv.ParseFloat\<close> belongs to Go's library, so it is a parameter of the model: a
  function from the string to the value and the error it returns (\<open>None\<close> for \<^verbatim>\<open>nil\<close>).
\<close>

datatype NumError = ErrSyntax | ErrRange

type_synonym ParseFloat = "string \<Rightarrow> float64 \<times> NumError option"

fun stringToFloat64 :: "ParseFloat \<Rightarrow> string list \<Rightarrow> float64 list" where
  "stringToFloat64 pf [] = []"
| "stringToFloat64 pf (s # input) = fst (pf s) # stringToFloat64 pf input"

text \<open>
  \<^verbatim>\<open>json.Decoder\<close> belongs to Go's library too. A decoder is modelled by what its
  successive \<^verbatim>\<open>Decode(&j)\<close> calls will do. First come the records it gets through: a record
  decoded into \<^verbatim>\<open>j\<close>, or a record it fails on but recovers from (a well-formed JSON value
  of the wrong shape), with the error it returns and what the failed call left in \<^verbatim>\<open>j\<close>
  (the zero value, or the fields decoded before the mismatch). Then comes the end: either
  the end of the input, where every call returns \<^verbatim>\<open>io.EOF\<close>, or an error it does not recover
  from (a syntax error, a truncated record, a failing read), where every call returns
  that same error and leaves \<^verbatim>\<open>j\<close> as it was. The mutex that the parallel reader holds
  during a call is not modelled: the model is of one call at a time.
\<close>

datatype decode_result = Decoded jsonInput | DecodeError jsonInput

datatype input_end = EndOfInput | BrokenInput

type_synonym Decoder = "decode_result list \<times> input_end"

fun decoded_into :: "decode_result \<Rightarrow> jsonInput" where
  "decoded_into (Decoded j) = j"
| "decoded_into (DecodeError j) = j"

text \<open>The zero value of \<^verbatim>\<open>jsonInput\<close>, which \<^verbatim>\<open>var j jsonInput\<close> gives before every call.\<close>

definition json_zero :: jsonInput where
  "json_zero = \<lparr>j_Outpath = [], j_Alpha = [], j_NumEpochs = [], j_Lambda = [],
                j_MiniBatchSize = []\<rparr>"

text \<open>One call of \<^verbatim>\<open>Decode\<close>: the error returned, \<^verbatim>\<open>j\<close> after the call, and the decoder after it.\<close>

datatype decode_err = NoError | EOF | OtherError

fun Decode :: "Decoder \<Rightarrow> (decode_err \<times> jsonInput) \<times> Decoder" where
  "Decode (Decoded j # records, e) = ((NoError, j), (records, e))"
| "Decode (DecodeError j # records, e) = ((OtherError, j), (records, e))"
| "Decode ([], EndOfInput) = ((EOF, json_zero), ([], EndOfInput))"
| "Decode ([], BrokenInput) = ((OtherError, json_zero), ([], BrokenInput))"

text \<open>The five assignments that fill \<^verbatim>\<open>h\<close> from \<^verbatim>\<open>j\<close> in both readers.\<close>

definition fill_task :: "ParseFloat \<Rightarrow> jsonInput \<Rightarrow> Hyperparameters" where
  "fill_task pf j =
     \<lparr>Outpath = j_Outpath j,
      Alpha = stringToFloat64 pf (j_Alpha j),
      NumEpochs = stringToFloat64 pf (j_NumEpochs j),
      Lambda = stringToFloat64 pf (j_Lambda j),
      MiniBatchSize = stringToFloat64 pf (j_MiniBatchSize j)\<rparr>"

text \<open>
  \<^verbatim>\<open>readJSONInputTasks\<close>: the loop leaves at \<^verbatim>\<open>io.EOF\<close> only; on any other error it prints
  the error and goes on to the assignments and the \<^verbatim>\<open>append\<close>. The loop has no bound, so
  the result is an option: \<open>None\<close> when the loop never leaves (the slice then grows until
  the memory is used up).
\<close>

partial_function (option) readJSONInputTasks_loop ::
  "ParseFloat \<Rightarrow> Decoder \<Rightarrow> Hyperparameters list \<Rightarrow> Hyperparameters list option" where
  "readJSONInputTasks_loop pf dec hyperParams =
     (case Decode dec of
        ((err, j), dec') \<Rightarrow>
          if err = EOF then Some hyperParams
          else readJSONInputTasks_loop pf dec' (hyperParams @ [fill_task pf j]))"

definition readJSONInputTasks :: "ParseFloat \<Rightarrow> Decoder \<Rightarrow> Hyperparameters list option" where
  "readJSONInputTasks pf dec = readJSONInputTasks_loop pf dec []"

text \<open>
  \<^verbatim>\<open>readJSONInputTasksParallel\<close> returns the buffered channel (its contents, in order) and
  leaves the decoder advanced. \<^verbatim>\<open>make\<close> panics on a negative size.
\<close>

function readJSONInputTasksParallel_loop ::
  "ParseFloat \<Rightarrow> int \<Rightarrow> int \<Rightarrow> Decoder \<Rightarrow> Hyperparameters list
     \<Rightarrow> Hyperparameters list \<times> Decoder" where
  "readJSONInputTasksParallel_loop pf i blockSize dec chan =
     (if i < blockSize then
        (case Decode dec of
           ((err, j), dec') \<Rightarrow>
             if err = EOF then (chan, dec')
             else readJSONInputTasksParallel_loop pf (i + 1) blockSize dec'
                    (chan @ [fill_task pf j]))
      else (chan, dec))"
  by pat_completeness auto
termination
  by (relation "measure (\<lambda>(pf, i, blockSize, dec, chan). nat (blockSize - i))") auto

definition readJSONInputTasksParallel ::
  "ParseFloat \<Rightarrow> int \<Rightarrow> Decoder \<Rightarrow> error + Hyperparameters list \<times> Decoder" where
  "readJSONInputTasksParallel pf blockSize dec =
     (if blockSize < 0 then Inl MakeChanSizeOutOfRange
      else Inr (readJSONInputTasksParallel_loop pf 0 blockSize dec []))"

section \<open>Program calibrate: gradient descent and the sequential search\<close>

function runGradientDescent_loop ::
  "int \<Rightarrow> int \<Rightarrow> InputData \<Rightarrow> float64 \<Rightarrow> Parameters \<Rightarrow> error + Parameters" where
  "runGradientDescent_loop i n dataNormalized alpha parameters =
     (if i < n then
        (case UpdateParams parameters dataNormalized alpha of
           Inl e \<Rightarrow> Inl e
         | Inr parameters' \<Rightarrow> runGradientDescent_loop (i + 1) n dataNormalized alpha parameters')
      else Inr parameters)"
  by pat_completeness auto
termination
  by (relation "measure (\<lambda>(i, n, d, a, p). nat (n - i))") auto

definition runGradientDescent :: "InputData \<Rightarrow> float64 \<Rightarrow> float64 \<Rightarrow> error + Parameters" where
  "runGradientDescent dataNormalized alpha numEpochs =
     runGradientDescent_loop 0 (int_of_float64 numEpochs) dataNormalized alpha
       \<lparr>Mu = Fin 0, Beta = Fin 0\<rparr>"

text \<open>
  The best result so far: the three variables \<^verbatim>\<open>optimalHyperParams\<close>, \<^verbatim>\<open>optimalMSE\<close>,
  \<^verbatim>\<open>optimalModelParams\<close> of the sequential search, and likewise the \<^verbatim>\<open>localOptimal...\<close>
  and \<^verbatim>\<open>globalOptimal...\<close> triples of the parallel one.
\<close>

record optimum =
  HyperParams :: Hyperparameters
  MSE :: float64
  ModelParams :: Parameters

definition initial_optimum :: "string \<Rightarrow> optimum" where
  "initial_optimum outpath =
     \<lparr>HyperParams = \<lparr>Outpath = outpath, Alpha = [], NumEpochs = [], Lambda = [], MiniBatchSize = []\<rparr>,
      MSE = MaxFloat64,
      ModelParams = \<lparr>Mu = Fin 0, Beta = Fin 0\<rparr>\<rparr>"

text \<open>
  What both searches do with one pair \<open>(alpha, numEpochs)\<close>: fit on the normalized data,
  denormalize, forecast on the raw data and take the error.
\<close>

definition evaluate ::
  "InputData \<Rightarrow> InputData \<Rightarrow> float64 \<Rightarrow> float64 \<Rightarrow> float64 \<Rightarrow> float64
     \<Rightarrow> error + float64 \<times> Parameters" where
  "evaluate dataNormalized data minX maxX alpha numEpochs =
     (case runGradientDescent dataNormalized alpha numEpochs of
        Inl e \<Rightarrow> Inl e
      | Inr fitted \<Rightarrow>
          (let parameters = UnNormalize fitted data minX maxX;
               predicted = Forecast (Mu parameters) (Beta parameters) (X data)
           in case CalcMSE predicted (Y data) of
                Inl e \<Rightarrow> Inl e
              | Inr mse \<Rightarrow> Inr (mse, parameters)))"

text \<open>The \<^verbatim>\<open>if mse < ...\<close> that ends the body of both search loops.\<close>

definition improve ::
  "string \<Rightarrow> float64 \<Rightarrow> float64 \<Rightarrow> float64 \<Rightarrow> Parameters \<Rightarrow> optimum \<Rightarrow> optimum" where
  "improve outpath alpha numEpochs mse parameters best =
     (if mse < MSE best then
        \<lparr>HyperParams = \<lparr>Outpath = outpath, Alpha = [alpha], NumEpochs = [numEpochs],
                        Lambda = [], MiniBatchSize = []\<rparr>,
         MSE = mse,
         ModelParams = \<lparr>Mu = Mu parameters, Beta = Beta parameters\<rparr>\<rparr>
      else best)"

fun gridSearchSequential_numEpochs ::
  "InputData \<Rightarrow> InputData \<Rightarrow> float64 \<Rightarrow> float64 \<Rightarrow> string \<Rightarrow> float64 \<Rightarrow> float64 list
     \<Rightarrow> optimum \<Rightarrow> error + optimum" where
  "gridSearchSequential_numEpochs dataNormalized data minX maxX outpath alpha [] best = Inr best"
| "gridSearchSequential_numEpochs dataNormalized data minX maxX outpath alpha (numEpochs # rest) best =
     (case evaluate dataNormalized data minX maxX alpha numEpochs of
        Inl e \<Rightarrow> Inl e
      | Inr (mse, parameters) \<Rightarrow>
          gridSearchSequential_numEpochs dataNormalized data minX maxX outpath alpha rest
            (improve outpath alpha numEpochs mse parameters best))"

fun gridSearchSequential_alpha ::
  "InputData \<Rightarrow> InputData \<Rightarrow> float64 \<Rightarrow> float64 \<Rightarrow> Hyperparameters \<Rightarrow> float64 list
     \<Rightarrow> optimum \<Rightarrow> error + optimum" where
  "gridSearchSequential_alpha dataNormalized data minX maxX hyperParams [] best = Inr best"
| "gridSearchSequential_alpha dataNormalized data minX maxX hyperParams (alpha # rest) best =
     (case gridSearchSequential_numEpochs dataNormalized data minX maxX (Outpath hyperParams)
             alpha (NumEpochs hyperParams) best of
        Inl e \<Rightarrow> Inl e
      | Inr best' \<Rightarrow>
          gridSearchSequential_alpha dataNormalized data minX maxX hyperParams rest best')"

text \<open>The body of the outer loop: the search over one task, up to the call of the writer.\<close>

definition gridSearchSequential_task ::
  "InputData \<Rightarrow> InputData \<Rightarrow> float64 \<Rightarrow> float64 \<Rightarrow> Hyperparameters \<Rightarrow> error + optimum" where
  "gridSearchSequential_task dataNormalized data minX maxX hyperParams =
     gridSearchSequential_alpha dataNormalized data minX maxX hyperParams (Alpha hyperParams)
       (initial_optimum (Outpath hyperParams))"



section \<open>Program calibrate: the parallel search\<close>

fun createArrayParamPermutations_numEpochs ::
  "Hyperparameters \<Rightarrow> float64 \<Rightarrow> float64 list \<Rightarrow> Hyperparameters list \<Rightarrow> Hyperparameters list" where
  "createArrayParamPermutations_numEpochs hyperparameters alpha [] output = output"
| "createArrayParamPermutations_numEpochs hyperparameters alpha (numEpochs # rest) output =
     createArrayParamPermutations_numEpochs hyperparameters alpha rest
       (output @ [\<lparr>Outpath = Outpath hyperparameters, Alpha = [alpha], NumEpochs = [numEpochs],
                    Lambda = [], MiniBatchSize = []\<rparr>])"

fun createArrayParamPermutations_alpha ::
  "Hyperparameters \<Rightarrow> float64 list \<Rightarrow> Hyperparameters list \<Rightarrow> Hyperparameters list" where
  "createArrayParamPermutations_alpha hyperparameters [] output = output"
| "createArrayParamPermutations_alpha hyperparameters (alpha # rest) output =
     createArrayParamPermutations_alpha hyperparameters rest
       (createArrayParamPermutations_numEpochs hyperparameters alpha
          (NumEpochs hyperparameters) output)"

definition createArrayParamPermutations :: "Hyperparameters \<Rightarrow> Hyperparameters list" where
  "createArrayParamPermutations hyperparameters =
     createArrayParamPermutations_alpha hyperparameters (Alpha hyperparameters) []"

text \<open>
  The loop of \<^verbatim>\<open>runParallelGradientDescent\<close> over its part of the work, on the
  sub-worker's own \<^verbatim>\<open>localOptimal...\<close> variables. \<^verbatim>\<open>hyperParams.Alpha[0]\<close> and
  \<^verbatim>\<open>hyperParams.NumEpochs[0]\<close> panic on an empty slice. The \<^verbatim>\<open>Outpath\<close> read from the shared
  \<^verbatim>\<open>globalOptimalHyperParams\<close> is the task's: no write ever changes it.
\<close>

fun runParallelGradientDescent_loop ::
  "InputData \<Rightarrow> InputData \<Rightarrow> float64 \<Rightarrow> float64 \<Rightarrow> string \<Rightarrow> Hyperparameters list
     \<Rightarrow> optimum \<Rightarrow> error + optimum" where
  "runParallelGradientDescent_loop dataNormalized data minX maxX outpath [] localOptimal =
     Inr localOptimal"
| "runParallelGradientDescent_loop dataNormalized data minX maxX outpath (hyperParams # rest)
     localOptimal =
     (case Alpha hyperParams of
        [] \<Rightarrow> Inl IndexOutOfRange
      | alpha # as \<Rightarrow>
          (case NumEpochs hyperParams of
             [] \<Rightarrow> Inl IndexOutOfRange
           | numEpochs # es \<Rightarrow>
               (case evaluate dataNormalized data minX maxX alpha numEpochs of
                  Inl e \<Rightarrow> Inl e
                | Inr (mse, parameters) \<Rightarrow>
                    runParallelGradientDescent_loop dataNormalized data minX maxX outpath rest
                      (improve outpath alpha numEpochs mse parameters localOptimal))))"

definition runParallelGradientDescent_local ::
  "InputData \<Rightarrow> InputData \<Rightarrow> float64 \<Rightarrow> float64 \<Rightarrow> string \<Rightarrow> Hyperparameters list
     \<Rightarrow> error + optimum" where
  "runParallelGradientDescent_local dataNormalized data minX maxX outpath workArray =
     runParallelGradientDescent_loop dataNormalized data minX maxX outpath workArray
       (initial_optimum outpath)"

text \<open>
  What follows the loop touches the shared \<^verbatim>\<open>globalOptimal...\<close> variables, so it is
  modelled step by step. A sub-worker that has finished its loop stands before the
  comparison \<^verbatim>\<open>localOptimalMSE < *globalOptimalMSE\<close>, which it makes without holding
  \<^verbatim>\<open>globalParamLock\<close>; if it holds it goes on to \<^verbatim>\<open>Lock()\<close>, to the three assignments
  (one step: no other sub-worker reads anything but \<^verbatim>\<open>*globalOptimalMSE\<close>, which is
  assigned first) and to \<^verbatim>\<open>Unlock()\<close>; then to \<^verbatim>\<open>group.Done()\<close>.
\<close>

datatype pc = AtCompare | AtLock | AtAssign | AtUnlock | AtDone

record subworker =
  localOptimal :: optimum
  stage :: pc

record shared =
  globalOptimal :: optimum
  globalParamLock :: "nat option"
  subworkers :: "subworker list"

text \<open>One step of sub-worker \<open>i\<close>; a sub-worker that waits for the lock does not move.\<close>

definition subworker_step :: "nat \<Rightarrow> shared \<Rightarrow> shared" where
  "subworker_step i s =
     (if i < length (subworkers s) then
        (let w = subworkers s ! i in
         case stage w of
           AtCompare \<Rightarrow>
             s\<lparr>subworkers := (subworkers s)
                  [i := w\<lparr>stage := (if MSE (localOptimal w) < MSE (globalOptimal s)
                                  then AtLock else AtDone)\<rparr>]\<rparr>
         | AtLock \<Rightarrow>
             (case globalParamLock s of
                None \<Rightarrow> s\<lparr>globalParamLock := Some i,
                           subworkers := (subworkers s)[i := w\<lparr>stage := AtAssign\<rparr>]\<rparr>
              | Some holder \<Rightarrow> s)
         | AtAssign \<Rightarrow>
             s\<lparr>globalOptimal := localOptimal w,
               subworkers := (subworkers s)[i := w\<lparr>stage := AtUnlock\<rparr>]\<rparr>
         | AtUnlock \<Rightarrow>
             s\<lparr>globalParamLock := None,
               subworkers := (subworkers s)[i := w\<lparr>stage := AtDone\<rparr>]\<rparr>
         | AtDone \<Rightarrow> s)
      else s)"

text \<open>
  An execution of the sub-workers is a schedule: the list of the sub-workers' numbers in
  the order in which they take their steps.
\<close>

fun run_schedule :: "nat list \<Rightarrow> shared \<Rightarrow> shared" where
  "run_schedule [] s = s"
| "run_schedule (i # schedule) s = run_schedule schedule (subworker_step i s)"

text \<open>\<^verbatim>\<open>group.Wait()\<close> returns when every sub-worker has called \<^verbatim>\<open>group.Done()\<close>.\<close>

definition group_Wait_returns :: "shared \<Rightarrow> bool" where
  "group_Wait_returns s = list_all (\<lambda>w. stage w = AtDone) (subworkers s)"

text \<open>
  The worker's partition of \<^verbatim>\<open>workArray\<close>. The indices are float64 values in the source;
  they are whole numbers far below \<open>2\<^sup>5\<^sup>3\<close>, where float64 arithmetic is exact, so the model
  computes them as natural numbers. The worker runs only with \<open>numThreads \<ge> 1\<close>.
\<close>

definition numTotalParamSets :: "Hyperparameters \<Rightarrow> nat" where
  "numTotalParamSets hyperParams =
     max 1 (length (Alpha hyperParams)) * max 1 (length (NumEpochs hyperParams)) *
     max 1 (length (Lambda hyperParams)) * max 1 (length (MiniBatchSize hyperParams))"

definition workSizePerThread :: "Hyperparameters \<Rightarrow> nat \<Rightarrow> nat" where
  "workSizePerThread hyperParams numThreads =
     nat \<lceil>real (numTotalParamSets hyperParams) / real numThreads\<rceil>"

function worker_subworkArrays :: "nat \<Rightarrow> nat \<Rightarrow> nat \<Rightarrow> 'a list \<Rightarrow> 'a list list" where
  "worker_subworkArrays i numThreads workSize workArray =
     (if i < numThreads then
        (let startIndex = i * workSize;
             endIndex = (i + 1) * workSize
         in if endIndex > length workArray then []
            else drop startIndex (take endIndex workArray)
                   # worker_subworkArrays (i + 1) numThreads workSize workArray)
      else [])"
  by pat_completeness auto
termination
  by (relation "measure (\<lambda>(i, numThreads, workSize, workArray). numThreads - i)") auto

definition worker_partition :: "nat \<Rightarrow> Hyperparameters \<Rightarrow> Hyperparameters list list" where
  "worker_partition numThreads hyperParams =
     worker_subworkArrays 0 numThreads (workSizePerThread hyperParams numThreads)
       (createArrayParamPermutations hyperParams)"

text \<open>A panic in any sub-worker ends the program.\<close>

fun all_results :: "(error + 'a) list \<Rightarrow> error + 'a list" where
  "all_results [] = Inr []"
| "all_results (Inl e # rs) = Inl e"
| "all_results (Inr r # rs) = (case all_results rs of Inl e \<Rightarrow> Inl e | Inr xs \<Rightarrow> Inr (r # xs))"

text \<open>
  The worker on one task, from the creation of the \<^verbatim>\<open>globalOptimal...\<close> variables to the
  moment every launched sub-worker has finished its loop.
\<close>

definition worker_launch ::
  "InputData \<Rightarrow> InputData \<Rightarrow> float64 \<Rightarrow> float64 \<Rightarrow> nat \<Rightarrow> Hyperparameters \<Rightarrow> error + shared" where
  "worker_launch dataNormalized data minX maxX numThreads hyperParams =
     (case all_results
             (map (runParallelGradientDescent_local dataNormalized data minX maxX
                     (Outpath hyperParams))
                (worker_partition numThreads hyperParams)) of
        Inl e \<Rightarrow> Inl e
      | Inr locals \<Rightarrow>
          Inr \<lparr>globalOptimal = initial_optimum (Outpath hyperParams),
               globalParamLock = None,
               subworkers = map (\<lambda>l. \<lparr>localOptimal = l, stage = AtCompare\<rparr>) locals\<rparr>)"

text \<open>
  The worker on one task under a schedule of its sub-workers, up to \<^verbatim>\<open>group.Wait()\<close>,
  together with the two calls that open the worker (made once, before its first task).
\<close>

definition worker_task ::
  "nat list \<Rightarrow> InputData \<Rightarrow> nat \<Rightarrow> Hyperparameters \<Rightarrow> error + shared" where
  "worker_task schedule data numThreads hyperParams =
     (case MinMax (X data) of
        Inl e \<Rightarrow> Inl e
      | Inr (minX, maxX) \<Rightarrow>
          (case worker_launch (Normalize data minX maxX) data minX maxX numThreads hyperParams of
             Inl e \<Rightarrow> Inl e
           | Inr s \<Rightarrow> Inr (run_schedule schedule s)))"

section \<open>Inputs of the examples\<close>

text \<open>The two points \<open>(0, 0)\<close> and \<open>(1, 1)\<close>; here \<open>min = 0\<close> and \<open>max = 1\<close>.\<close>

definition example_data :: InputData where
  "example_data = \<lparr>X = [Fin 0, Fin 1], Y = [Fin 0, Fin 1]\<rparr>"

text \<open>Two points with the same \<open>x\<close>, as a file with the rows \<^verbatim>\<open>1,2\<close> and \<^verbatim>\<open>1,3\<close> gives.\<close>

definition degenerate_data :: InputData where
  "degenerate_data = \<lparr>X = [Fin 1, Fin 1], Y = [Fin 2, Fin 3]\<rparr>"

text \<open>A \<^verbatim>\<open>ParseFloat\<close> on a handful of strings; every other string is a syntax error.\<close>

definition example_ParseFloat :: ParseFloat where
  "example_ParseFloat s =
     (if s = ''0'' then (Fin 0, None)
      else if s = ''1'' then (Fin 1, None)
      else if s = ''2'' then (Fin 2, None)
      else if s = ''0.5'' then (Fin (1 / 2), None)
      else if s = ''1e999'' then (PInf, Some ErrRange)
      else (Fin 0, Some ErrSyntax))"

text \<open>Grids with the learning rate \<open>1/2\<close> and the epoch counts \<open>0, 1\<close> and \<open>0, 1, 2\<close>.\<close>

definition grid2 :: Hyperparameters where
  "grid2 = \<lparr>Outpath = ''out.csv'', Alpha = [Fin (1 / 2)], NumEpochs = [Fin 0, Fin 1],
            Lambda = [], MiniBatchSize = []\<rparr>"

definition grid3 :: Hyperparameters where
  "grid3 = \<lparr>Outpath = ''out.csv'', Alpha = [Fin (1 / 2)], NumEpochs = [Fin 0, Fin 1, Fin 2],
            Lambda = [], MiniBatchSize = []\<rparr>"

text \<open>The permutation of these grids with the epoch count \<open>n\<close>.\<close>

definition point :: "real \<Rightarrow> Hyperparameters" where
  "point n = \<lparr>Outpath = ''out.csv'', Alpha = [Fin (1 / 2)], NumEpochs = [Fin n],
              Lambda = [], MiniBatchSize = []\<rparr>"

text \<open>A grid with the learning rate \<open>0\<close> and the epoch count \<open>0\<close>, and the record it is read from.\<close>

definition grid0 :: Hyperparameters where
  "grid0 = \<lparr>Outpath = ''out.csv'', Alpha = [Fin 0], NumEpochs = [Fin 0],
            Lambda = [], MiniBatchSize = []\<rparr>"

definition json0 :: jsonInput where
  "json0 = \<lparr>j_Outpath = ''out.csv'', j_Alpha = [''0''], j_NumEpochs = [''0''],
            j_Lambda = [], j_MiniBatchSize = []\<rparr>"

text \<open>Two points with \<open>y = 10\<^sup>3\<^sup>0\<^sup>8\<close>, a finite float64 whose double is not.\<close>

definition huge_data :: InputData where
  "huge_data = \<lparr>X = [Fin 0, Fin 1], Y = [Fin (10 ^ 308), Fin (10 ^ 308)]\<rparr>"

section \<open>float64 arithmetic\<close>

lemma float64_max_large: "1024 < float64_max"
  by (simp add: float64_max_def)

lemma float64_round_small [simp]: "\<bar>r\<bar> \<le> 1024 \<Longrightarrow> float64_round r = Fin r"
proof -
  assume "\<bar>r\<bar> \<le> 1024"
  moreover have "(0::real) < 2 ^ 970" by simp
  ultimately have "\<not> float64_max + 2 ^ 970 \<le> r" "\<not> r \<le> - (float64_max + 2 ^ 970)"
    "\<not> float64_max < r" "\<not> r < - float64_max"
    using float64_max_large by linarith+
  then show ?thesis by (simp only: float64_round_def if_False)
qed

lemma Fin_minus [simp]: "Fin a - Fin b = float64_round (a - b)"
  by (simp add: minus_float64_def)


lemma float64_less_imp_le: "a < b \<Longrightarrow> a \<le> (b :: float64)"
  by (cases a; cases b) simp_all

lemma float64_not_less_imp_le: "\<not> m < s \<Longrightarrow> m \<noteq> NaN \<Longrightarrow> s \<noteq> NaN \<Longrightarrow> s \<le> (m :: float64)"
  by (cases m; cases s) simp_all

lemma float64_le_trans: "a \<le> b \<Longrightarrow> b \<le> c \<Longrightarrow> a \<le> (c :: float64)"
  by (cases a; cases b; cases c) simp_all

lemma float64_le_refl: "a \<noteq> NaN \<Longrightarrow> a \<le> (a :: float64)"
  by (cases a) simp_all

lemma float64_less_not_NaN: "a < (b :: float64) \<Longrightarrow> a \<noteq> NaN \<and> b \<noteq> NaN"
  by (cases a; cases b) simp_all

section \<open>The regression step\<close>

lemma length_Forecast: "length (Forecast mu beta x) = length x"
  by (induction x) simp_all

lemma calcGradientMu_loop_returns:
  "length predicted \<le> length actual \<Longrightarrow> \<exists>r. calcGradientMu_loop predicted actual g = Inr r"
  by (induction predicted actual g rule: calcGradientMu_loop.induct) simp_all

lemma calcGradientBeta_loop_returns:
  "length predicted \<le> length ys \<Longrightarrow> length predicted \<le> length xs \<Longrightarrow>
   \<exists>r. calcGradientBeta_loop predicted ys xs g = Inr r"
  by (induction predicted ys xs g rule: calcGradientBeta_loop.induct) simp_all

lemma calcGradientMu_returns:
  "length predicted \<le> length actual \<Longrightarrow> \<exists>r. calcGradientMu predicted actual = Inr r"
  using calcGradientMu_loop_returns [of predicted actual "Fin 0"]
  by (auto simp: calcGradientMu_def)

lemma calcGradientBeta_returns:
  "length predicted \<le> length (Y data) \<Longrightarrow> length predicted \<le> length (X data) \<Longrightarrow>
   \<exists>r. calcGradientBeta predicted data = Inr r"
  using calcGradientBeta_loop_returns [of predicted "Y data" "X data" "Fin 0"]
  by (auto simp: calcGradientBeta_def)

text \<open>
  Claim C9. On a dataset (\<open>X\<close> and \<open>Y\<close> of equal length), for all parameters and every
  learning rate, one step of gradient descent returns
  \<open>(mu - alpha * gradMu, beta - alpha * gradBeta)\<close>, where both gradients are computed from
  the one forecast made with the parameters given: neither component is computed from
  the other's new value.
\<close>

theorem UpdateParams_simultaneous:
  assumes "length (X data) = length (Y data)"
  shows "\<exists>gMu gBeta.
           calcGradientMu (Forecast (Mu p) (Beta p) (X data)) (Y data) = Inr gMu \<and>
           calcGradientBeta (Forecast (Mu p) (Beta p) (X data)) data = Inr gBeta \<and>
           UpdateParams p data alpha =
             Inr \<lparr>Mu = Mu p - alpha * gMu, Beta = Beta p - alpha * gBeta\<rparr>"
proof -
  let ?pred = "Forecast (Mu p) (Beta p) (X data)"
  have len: "length ?pred \<le> length (Y data)" "length ?pred \<le> length (X data)"
    using assms by (simp_all add: length_Forecast)
  obtain gMu where gMu: "calcGradientMu ?pred (Y data) = Inr gMu"
    using calcGradientMu_returns [OF len(1)] by blast
  obtain gBeta where gBeta: "calcGradientBeta ?pred data = Inr gBeta"
    using calcGradientBeta_returns [OF len] by blast
  have "UpdateParams p data alpha =
          Inr (p\<lparr>Mu := Mu p - alpha * gMu, Beta := Beta p - alpha * gBeta\<rparr>)"
    by (simp add: UpdateParams_def gMu gBeta Let_def)
  moreover have "p\<lparr>Mu := Mu p - alpha * gMu, Beta := Beta p - alpha * gBeta\<rparr> =
                 \<lparr>Mu = Mu p - alpha * gMu, Beta = Beta p - alpha * gBeta\<rparr>"
    by (cases p) simp
  ultimately show ?thesis using gMu gBeta by simp
qed

theorem UpdateParams_simultaneous_witness:
  "length (X example_data) = length (Y example_data) \<and>
   UpdateParams \<lparr>Mu = Fin 0, Beta = Fin 0\<rparr> example_data (Fin (1 / 2)) =
     Inr \<lparr>Mu = Fin (1 / 2), Beta = Fin (1 / 2)\<rparr>"
  using UpdateParams_simultaneous [of example_data "\<lparr>Mu = Fin 0, Beta = Fin 0\<rparr>" "Fin (1 / 2)"]
  by (simp add: example_data_def calcGradientMu_def calcGradientBeta_def float64_of_len_def)

section \<open>Denormalization\<close>

lemma UnNormalize_formula:
  "UnNormalize p d minX maxX = \<lparr>Mu = Mu p, Beta = Beta p / (maxX - minX) - minX\<rparr>"
  by (cases p) (simp add: UnNormalize_def)

text \<open>
  The line fitted on the normalized \<open>x\<close>, written over the raw \<open>x\<close> (in exact arithmetic):
  its slope is \<open>beta / (max - min)\<close>.
\<close>

lemma slope_of_fitted_line:
  "b * ((x - mn) / (mx - mn)) + m = b / (mx - mn) * x + (m - b * mn / (mx - mn))"
  for b x mn mx m :: real
  by (simp add: algebra_simps diff_divide_distrib)

text \<open>
  Claim C4. Denormalization should return the slope \<open>beta / (max - min)\<close> with no additive
  term and leave the intercept as it is. The code subtracts \<open>min\<close> from the slope: with
  \<open>beta = 2\<close>, \<open>min = 1\<close> and \<open>max = 3\<close> it returns the slope \<open>0\<close>, where
  \<open>beta / (max - min)\<close> is \<open>1\<close>; the intercept is unchanged.
\<close>

theorem UnNormalize_slope_at_example:
  "UnNormalize \<lparr>Mu = Fin 0, Beta = Fin 2\<rparr> example_data (Fin 1) (Fin 3) =
     \<lparr>Mu = Fin 0, Beta = Fin 0\<rparr> \<and>
   Fin 2 / (Fin 3 - Fin 1) = Fin 1"
  by (simp add: UnNormalize_def)

section \<open>Reading the candidate values\<close>



section \<open>Gradient descent with the learning rate 0\<close>

lemma zero_rate_step: "Fin 0 - Fin 0 * g = (if is_Fin g then Fin 0 else NaN)"
  by (cases g) (simp_all add: minus_float64_def)

lemma UpdateParams_zero_rate:
  assumes "calcGradientMu (Forecast (Fin 0) (Fin 0) (X d)) (Y d) = Inr gMu"
    and "calcGradientBeta (Forecast (Fin 0) (Fin 0) (X d)) d = Inr gBeta"
  shows "UpdateParams \<lparr>Mu = Fin 0, Beta = Fin 0\<rparr> d (Fin 0) =
           Inr \<lparr>Mu = (if is_Fin gMu then Fin 0 else NaN),
                Beta = (if is_Fin gBeta then Fin 0 else NaN)\<rparr>"
  using assms by (simp add: UpdateParams_def Let_def zero_rate_step)

lemma runGradientDescent_loop_zero_rate:
  assumes "calcGradientMu (Forecast (Fin 0) (Fin 0) (X d)) (Y d) = Inr gMu" "is_Fin gMu"
    and "calcGradientBeta (Forecast (Fin 0) (Fin 0) (X d)) d = Inr gBeta" "is_Fin gBeta"
  shows "runGradientDescent_loop i n d (Fin 0) \<lparr>Mu = Fin 0, Beta = Fin 0\<rparr> =
           Inr \<lparr>Mu = Fin 0, Beta = Fin 0\<rparr>"
proof (induction "nat (n - i)" arbitrary: i)
  case 0
  then show ?case by simp
next
  case (Suc k)
  then have "i < n" "k = nat (n - (i + 1))" by linarith+
  then show ?case
    using Suc.hyps(1) [of "i + 1"] UpdateParams_zero_rate [OF assms(1,3)] assms(2,4) by simp
qed

text \<open>
  Claim C8, as amended. Take a dataset on which the two gradients at the initial
  parameters \<open>(0, 0)\<close> are computed (at least as many \<open>y\<close> as \<open>x\<close>). If both gradients are
  finite, gradient descent with the learning rate \<open>0\<close> returns the initial parameters
  \<open>(0, 0)\<close>, whatever the epoch count. A gradient that is NaN or infinite (no point at
  all, a NaN among the values, sums that overflow) makes the first epoch turn its
  parameter into NaN, since \<open>0 * NaN\<close> and \<open>0 * \<infinity>\<close> are NaN.
\<close>

theorem runGradientDescent_zero_rate:
  assumes "calcGradientMu (Forecast (Fin 0) (Fin 0) (X d)) (Y d) = Inr gMu"
    and "calcGradientBeta (Forecast (Fin 0) (Fin 0) (X d)) d = Inr gBeta"
  shows "(is_Fin gMu \<and> is_Fin gBeta \<longrightarrow>
            runGradientDescent d (Fin 0) numEpochs = Inr \<lparr>Mu = Fin 0, Beta = Fin 0\<rparr>) \<and>
         UpdateParams \<lparr>Mu = Fin 0, Beta = Fin 0\<rparr> d (Fin 0) =
           Inr \<lparr>Mu = (if is_Fin gMu then Fin 0 else NaN),
                Beta = (if is_Fin gBeta then Fin 0 else NaN)\<rparr>"
  using runGradientDescent_loop_zero_rate [OF assms(1) _ assms(2)]
    UpdateParams_zero_rate [OF assms]
  by (simp add: runGradientDescent_def)

theorem runGradientDescent_zero_rate_witness:
  "calcGradientMu (Forecast (Fin 0) (Fin 0) (X example_data)) (Y example_data) = Inr (Fin (- 1)) \<and>
   calcGradientBeta (Forecast (Fin 0) (Fin 0) (X example_data)) example_data = Inr (Fin (- 1)) \<and>
   is_Fin (Fin (- 1)) \<and>
   runGradientDescent example_data (Fin 0) (Fin 3) = Inr \<lparr>Mu = Fin 0, Beta = Fin 0\<rparr>"
proof -
  have g: "calcGradientMu (Forecast (Fin 0) (Fin 0) (X example_data)) (Y example_data) =
             Inr (Fin (- 1))"
    "calcGradientBeta (Forecast (Fin 0) (Fin 0) (X example_data)) example_data =
             Inr (Fin (- 1))"
    by (simp_all add: example_data_def calcGradientMu_def calcGradientBeta_def
          float64_of_len_def)
  show ?thesis using g runGradientDescent_zero_rate [OF g, of "Fin 3"] by simp
qed

text \<open>
  The claim as stated fails on a dataset whose \<open>x\<close> are all equal: normalization divides
  \<open>0\<close> by \<open>0\<close>, the normalized \<open>x\<close> are NaN, and one epoch with the learning rate \<open>0\<close>
  returns NaN parameters. It fails as well on finite data with \<open>min < max\<close> whose sums
  overflow: with \<open>y = 10\<^sup>3\<^sup>0\<^sup>8\<close> at \<open>x = 0\<close> and at \<open>x = 1\<close> both gradients are \<open>-\<infinity>\<close>.
\<close>

theorem runGradientDescent_zero_rate_counterexample:
  "MinMax (X degenerate_data) = Inr (Fin 1, Fin 1) \<and>
   runGradientDescent (Normalize degenerate_data (Fin 1) (Fin 1)) (Fin 0) (Fin 1) =
     Inr \<lparr>Mu = NaN, Beta = NaN\<rparr> \<and>
   MinMax (X huge_data) = Inr (Fin 0, Fin 1) \<and>
   runGradientDescent (Normalize huge_data (Fin 0) (Fin 1)) (Fin 0) (Fin 1) =
     Inr \<lparr>Mu = NaN, Beta = NaN\<rparr>"
proof -
  have "MinMax (X degenerate_data) = Inr (Fin 1, Fin 1) \<and>
        runGradientDescent (Normalize degenerate_data (Fin 1) (Fin 1)) (Fin 0) (Fin 1) =
          Inr \<lparr>Mu = NaN, Beta = NaN\<rparr>"
    by (simp add: degenerate_data_def MinMax_def Normalize_def runGradientDescent_def
          UpdateParams_def calcGradientMu_def calcGradientBeta_def float64_of_len_def
          minus_float64_def Let_def)
  moreover have "MinMax (X huge_data) = Inr (Fin 0, Fin 1)"
    by (simp add: huge_data_def MinMax_def Let_def)
  moreover have "runGradientDescent (Normalize huge_data (Fin 0) (Fin 1)) (Fin 0) (Fin 1) =
          Inr \<lparr>Mu = NaN, Beta = NaN\<rparr>"
    by (simp add: huge_data_def Normalize_def runGradientDescent_def
          UpdateParams_def calcGradientMu_def calcGradientBeta_def float64_of_len_def
          minus_float64_def float64_round_def float64_max_def Let_def)
  ultimately show ?thesis by simp
qed

section \<open>The worker's partition\<close>

text \<open>
  What the partition hands out: the parts are consecutive pieces of \<^verbatim>\<open>workArray\<close> from its
  start, as many whole parts of the size \<^verbatim>\<open>workSizePerThread\<close> as fit, and at most
  \<^verbatim>\<open>numThreads\<close> of them.
\<close>

lemma drop_take_split:
  "i \<le> a \<Longrightarrow> drop i (take a ys) @ drop a ys = drop i ys"
proof -
  have "drop i ys = drop i (take a ys @ drop a ys)" by simp
  also have "\<dots> = drop i (take a ys) @ drop (i - length (take a ys)) (drop a ys)"
    by (simp only: drop_append)
  also have "drop (i - length (take a ys)) (drop a ys) = drop a ys" if "i \<le> a"
    using that by (cases "a \<le> length ys") (simp_all add: min_def)
  finally show ?thesis if "i \<le> a" using that by simp
qed

lemma worker_subworkArrays_concat:
  "0 < w \<Longrightarrow>
   concat (worker_subworkArrays i T w xs) =
     drop (i * w) (take (max i (min T (length xs div w)) * w) xs)"
proof (induction i T w xs rule: worker_subworkArrays.induct)
  case (1 i T w xs)
  note pos = \<open>0 < w\<close>
  let ?m = "max i (min T (length xs div w))"
  show ?case
  proof (cases "i < T \<and> (i + 1) * w \<le> length xs")
    case False
    have "min T (length xs div w) \<le> i"
    proof (cases "i < T")
      case False
      then show ?thesis by simp
    next
      case True
      with \<open>\<not> (i < T \<and> (i + 1) * w \<le> length xs)\<close> have "length xs < (i + 1) * w" by simp
      then have "length xs div w < i + 1"
        by (rule less_mult_imp_div_less)
      then show ?thesis by simp
    qed
    then have "?m = i" by simp
    moreover have "worker_subworkArrays i T w xs = []"
      using False by (auto simp: Let_def)
    ultimately show ?thesis by simp
  next
    case True
    then have "(i + 1) * w \<le> length xs" by (rule conjunct2)
    then have le: "i + 1 \<le> length xs div w"
      by (simp only: less_eq_div_iff_mult_less_eq [OF pos])
    with True have m: "?m = min T (length xs div w)" "max (i + 1) (min T (length xs div w)) = ?m"
      "i + 1 \<le> ?m"
      by auto
    have unfold: "worker_subworkArrays i T w xs =
        drop (i * w) (take ((i + 1) * w) xs) # worker_subworkArrays (i + 1) T w xs"
      using True by (subst worker_subworkArrays.simps) (simp add: Let_def)
    have ih: "concat (worker_subworkArrays (i + 1) T w xs) =
        drop ((i + 1) * w) (take (?m * w) xs)"
      using "1.IH" [OF _ refl refl _ pos] True m(2) by simp
    have "(i + 1) * w \<le> ?m * w"
      using m(3) by (rule mult_le_mono1)
    then have "take ((i + 1) * w) (take (?m * w) xs) = take ((i + 1) * w) xs"
      by (simp only: take_take min.absorb1)
    then have "drop (i * w) (take ((i + 1) * w) xs) @ drop ((i + 1) * w) (take (?m * w) xs) =
          drop (i * w) (take (?m * w) xs)"
      using drop_take_split [of "i * w" "(i + 1) * w" "take (?m * w) xs"] by simp
    then show ?thesis by (simp only: unfold ih concat.simps)
  qed
qed

lemma length_createArrayParamPermutations_numEpochs:
  "length (createArrayParamPermutations_numEpochs hp a es acc) = length acc + length es"
  by (induction es arbitrary: acc) simp_all

lemma length_createArrayParamPermutations_alpha:
  "length (createArrayParamPermutations_alpha hp as acc) =
     length acc + length as * length (NumEpochs hp)"
  by (induction as arbitrary: acc) (simp_all add: length_createArrayParamPermutations_numEpochs)

lemma length_createArrayParamPermutations:
  "length (createArrayParamPermutations hp) = length (Alpha hp) * length (NumEpochs hp)"
  by (simp add: createArrayParamPermutations_def length_createArrayParamPermutations_alpha)

lemma workSizePerThread_pos: "0 < T \<Longrightarrow> 0 < workSizePerThread hp T"
  by (simp add: workSizePerThread_def numTotalParamSets_def)

lemma worker_partition_concat:
  assumes "0 < T"
  shows "concat (worker_partition T hp) =
           take (min T (length (createArrayParamPermutations hp) div workSizePerThread hp T)
                   * workSizePerThread hp T)
             (createArrayParamPermutations hp)"
  using worker_subworkArrays_concat [OF workSizePerThread_pos [OF assms],
      where i = 0 and T = T and xs = "createArrayParamPermutations hp"]
  by (simp add: worker_partition_def del: worker_subworkArrays.simps)

text \<open>
  Claim C1. The partition should put every permutation in exactly one part. With three
  permutations and two threads the part size is \<open>2\<close>; the second part would end at index
  \<open>4 > 3\<close>, so the loop leaves, and the third permutation is in no part.
\<close>

theorem worker_partition_at_example:
  "createArrayParamPermutations grid3 = [point 0, point 1, point 2] \<and>
   worker_partition 2 grid3 = [[point 0, point 1]] \<and>
   point 2 \<notin> set (concat (worker_partition 2 grid3))"
  by (simp add: worker_partition_def createArrayParamPermutations_def grid3_def point_def
        workSizePerThread_def numTotalParamSets_def)

section \<open>Reading the tasks\<close>

lemma readJSONInputTasks_loop_EndOfInput:
  "readJSONInputTasks_loop pf (records, EndOfInput) hyperParams =
     Some (hyperParams @ map (\<lambda>r. fill_task pf (decoded_into r)) records)"
proof (induction records arbitrary: hyperParams)
  case Nil
  show ?case by (subst readJSONInputTasks_loop.simps) simp
next
  case (Cons r records)
  show ?case
    by (subst readJSONInputTasks_loop.simps) (cases r; simp add: Cons.IH)
qed

lemma readJSONInputTasks_loop_returns:
  assumes "readJSONInputTasks_loop pf dec hyperParams = Some tasks"
  shows "snd dec = EndOfInput"
proof (rule readJSONInputTasks_loop.raw_induct
    [where P = "\<lambda>pf dec hyperParams tasks. snd dec = EndOfInput", OF _ assms])
  fix loop :: "ParseFloat \<Rightarrow> Decoder \<Rightarrow> Hyperparameters list \<Rightarrow> Hyperparameters list option"
    and pf dec hyperParams tasks
  assume IH: "\<And>pf dec hyperParams y. loop pf dec hyperParams = Some y \<Longrightarrow> snd dec = EndOfInput"
    and eq: "(case Decode dec of
        ((err, j), dec') \<Rightarrow>
          if err = EOF then Some hyperParams
          else loop pf dec' (hyperParams @ [fill_task pf j])) = Some tasks"
  show "snd dec = EndOfInput"
    using eq by (cases dec rule: Decode.cases) (auto dest: IH)
qed

lemma readJSONInputTasks_loop_BrokenInput:
  "readJSONInputTasks_loop pf (records, BrokenInput) hyperParams = None"
  using readJSONInputTasks_loop_returns [of pf "(records, BrokenInput)" hyperParams]
  by (cases "readJSONInputTasks_loop pf (records, BrokenInput) hyperParams") auto

lemma readJSONInputTasksParallel_loop_eq:
  "readJSONInputTasksParallel_loop pf i blockSize (records, e) chan =
     (chan @ map (\<lambda>r. fill_task pf (decoded_into r)) (take (nat (blockSize - i)) records) @
        (if e = BrokenInput
         then replicate (nat (blockSize - i) - length records) (fill_task pf json_zero)
         else []),
      (drop (nat (blockSize - i)) records, e))"
proof (induction "nat (blockSize - i)" arbitrary: i records chan)
  case 0
  then have "\<not> i < blockSize" by simp
  then show ?case using 0 by simp
next
  case (Suc k)
  then have lt: "i < blockSize" and k: "k = nat (blockSize - (i + 1))" by linarith+
  have n: "nat (blockSize - i) = Suc k" using Suc.hyps(2) by simp
  show ?case
  proof (cases records)
    case Nil
    show ?thesis
    proof (cases e)
      case EndOfInput
      show ?thesis
        by (subst readJSONInputTasksParallel_loop.simps) (simp add: lt Nil EndOfInput)
    next
      case BrokenInput
      have "readJSONInputTasksParallel_loop pf i blockSize ([], BrokenInput) chan =
            readJSONInputTasksParallel_loop pf (i + 1) blockSize ([], BrokenInput)
              (chan @ [fill_task pf json_zero])"
        by (subst readJSONInputTasksParallel_loop.simps) (simp add: lt)
      also have "\<dots> = ((chan @ [fill_task pf json_zero]) @
                 replicate k (fill_task pf json_zero), ([], BrokenInput))"
        using Suc.hyps(1) [OF k, of "[]" "chan @ [fill_task pf json_zero]"]
        by (simp add: BrokenInput k [symmetric] del: readJSONInputTasksParallel_loop.simps)
      finally show ?thesis
        by (simp add: Nil BrokenInput n del: readJSONInputTasksParallel_loop.simps)
    qed
  next
    case (Cons r rest)
    have "readJSONInputTasksParallel_loop pf i blockSize (r # rest, e) chan =
          readJSONInputTasksParallel_loop pf (i + 1) blockSize (rest, e)
            (chan @ [fill_task pf (decoded_into r)])"
      by (subst readJSONInputTasksParallel_loop.simps) (cases r; simp add: lt)
    then show ?thesis
      using Suc.hyps(1) [OF k, of rest "chan @ [fill_task pf (decoded_into r)]"]
      by (simp add: Cons n k [symmetric] del: readJSONInputTasksParallel_loop.simps)
  qed
qed

text \<open>
  Claim C3, as amended. No reader skips a record that \<^verbatim>\<open>Decode\<close> fails on. Where the
  decoder recovers from the error (a well-formed JSON value of the wrong shape), the
  reader builds a task from what the failed call left in the record and adds it to the
  batch, as it does for a record that was decoded, and decoding continues with the next
  record. Where the decoder does not recover (a syntax error, a truncated record: every
  later call returns the same error), no later record is decoded: the parallel reader
  fills the rest of the batch with empty tasks, \<open>blockSize\<close> tasks in every call, and
  the sequential reader never returns. On an input that ends, the sequential reader
  returns one task for every record and the parallel one a task for each of the first
  \<open>blockSize\<close> records, leaving the rest to the next call.
\<close>

theorem readers_keep_malformed_records:
  "readJSONInputTasksParallel pf (int n) (records, e) =
     Inr (map (\<lambda>r. fill_task pf (decoded_into r)) (take n records) @
            (if e = BrokenInput then replicate (n - length records) (fill_task pf json_zero)
             else []),
          (drop n records, e)) \<and>
   readJSONInputTasks pf (records, EndOfInput) =
     Some (map (\<lambda>r. fill_task pf (decoded_into r)) records) \<and>
   readJSONInputTasks pf (records, BrokenInput) = None"
  by (simp add: readJSONInputTasks_def readJSONInputTasks_loop_EndOfInput
        readJSONInputTasks_loop_BrokenInput
        readJSONInputTasksParallel_def readJSONInputTasksParallel_loop_eq
      del: readJSONInputTasksParallel_loop.simps)

text \<open>
  The claim as stated fails: a record that could not be decoded (a number, say, where
  an object is expected), followed by a good one, gives a batch of two tasks, the first
  with no destination and no candidates.
\<close>

theorem malformed_record_becomes_task:
  "readJSONInputTasksParallel example_ParseFloat 2
     ([DecodeError json_zero, Decoded json0], EndOfInput) =
     Inr ([\<lparr>Outpath = [], Alpha = [], NumEpochs = [], Lambda = [], MiniBatchSize = []\<rparr>, grid0],
          ([], EndOfInput)) \<and>
   readJSONInputTasks example_ParseFloat ([DecodeError json_zero, Decoded json0], EndOfInput) =
     Some [\<lparr>Outpath = [], Alpha = [], NumEpochs = [], Lambda = [], MiniBatchSize = []\<rparr>, grid0]"
  by (simp add: readJSONInputTasksParallel_def readJSONInputTasks_def
        readJSONInputTasks_loop_EndOfInput fill_task_def
        json_zero_def json0_def grid0_def example_ParseFloat_def)

section \<open>The dataset is not checked\<close>



lemma Normalize_loop_eq:
  "Normalize_loop arr minX maxX = map (\<lambda>x. (x - minX) / (maxX - minX)) arr"
  by (induction arr) simp_all



lemma evaluate_degenerate:
  "evaluate (Normalize degenerate_data (Fin 1) (Fin 1)) degenerate_data (Fin 1) (Fin 1)
     (Fin 0) (Fin 0) = Inr (NaN, \<lparr>Mu = Fin 0, Beta = NaN\<rparr>)"
  by (simp add: evaluate_def runGradientDescent_def UnNormalize_def degenerate_data_def
        CalcMSE_def Normalize_def Pow2_def float64_of_len_def minus_float64_def Let_def)


section \<open>The best result so far\<close>

lemma MaxFloat64_not_NaN: "MaxFloat64 \<noteq> NaN"
  by (simp add: MaxFloat64_def)

lemma small_less_MaxFloat64: "r \<le> 1 \<Longrightarrow> Fin r < MaxFloat64"
proof -
  assume "r \<le> 1"
  moreover have "(1::real) < float64_max" by (simp add: float64_max_def)
  ultimately show ?thesis by (simp add: MaxFloat64_def)
qed

lemma MSE_improve:
  "MSE (improve outpath alpha numEpochs mse parameters best) =
     (if mse < MSE best then mse else MSE best)"
  by (simp add: improve_def)

lemma improve_bounds:
  assumes "MSE best \<noteq> NaN"
  shows "MSE (improve outpath alpha numEpochs mse parameters best) \<noteq> NaN"
    and "MSE (improve outpath alpha numEpochs mse parameters best) \<le> MSE best"
    and "mse = NaN \<or> MSE (improve outpath alpha numEpochs mse parameters best) \<le> mse"
proof -
  show "MSE (improve outpath alpha numEpochs mse parameters best) \<noteq> NaN"
    using assms float64_less_not_NaN [of mse "MSE best"] by (auto simp: MSE_improve)
  show "MSE (improve outpath alpha numEpochs mse parameters best) \<le> MSE best"
    using assms by (simp add: MSE_improve float64_less_imp_le float64_le_refl)
  show "mse = NaN \<or> MSE (improve outpath alpha numEpochs mse parameters best) \<le> mse"
    using assms float64_not_less_imp_le [of mse "MSE best"] float64_le_refl [of mse]
    by (auto simp: MSE_improve)
qed

lemma gridSearchSequential_numEpochs_min:
  assumes "gridSearchSequential_numEpochs dn d mn mx out a es best = Inr best'"
    and "MSE best \<noteq> NaN"
  shows "MSE best' \<noteq> NaN \<and> MSE best' \<le> MSE best \<and>
         (\<forall>e\<in>set es. \<exists>mse p. evaluate dn d mn mx a e = Inr (mse, p) \<and>
                                (mse = NaN \<or> MSE best' \<le> mse))"
  using assms
proof (induction es arbitrary: best)
  case Nil
  then show ?case by (simp add: float64_le_refl)
next
  case (Cons e es)
  from Cons.prems(1) obtain mse p where ev: "evaluate dn d mn mx a e = Inr (mse, p)"
    and rest: "gridSearchSequential_numEpochs dn d mn mx out a es (improve out a e mse p best)
                 = Inr best'"
    by (auto split: sum.splits)
  let ?b = "improve out a e mse p best"
  note b = improve_bounds [OF Cons.prems(2), where outpath = out and alpha = a
      and numEpochs = e and mse = mse and parameters = p]
  from Cons.IH [OF rest b(1)]
  have ih: "MSE best' \<noteq> NaN" "MSE best' \<le> MSE ?b"
    "\<forall>e\<in>set es. \<exists>mse p. evaluate dn d mn mx a e = Inr (mse, p) \<and>
                         (mse = NaN \<or> MSE best' \<le> mse)"
    by simp_all
  have "MSE best' \<le> MSE best"
    using ih(2) b(2) by (rule float64_le_trans)
  moreover have "mse = NaN \<or> MSE best' \<le> mse"
    using b(3) ih(2) by (blast intro: float64_le_trans)
  ultimately show ?case using ih(1,3) ev by simp
qed

lemma gridSearchSequential_alpha_min:
  assumes "gridSearchSequential_alpha dn d mn mx hp as best = Inr best'"
    and "MSE best \<noteq> NaN"
  shows "MSE best' \<noteq> NaN \<and> MSE best' \<le> MSE best \<and>
         (\<forall>a\<in>set as. \<forall>e\<in>set (NumEpochs hp).
            \<exists>mse p. evaluate dn d mn mx a e = Inr (mse, p) \<and> (mse = NaN \<or> MSE best' \<le> mse))"
  using assms
proof (induction as arbitrary: best)
  case Nil
  then show ?case by (simp add: float64_le_refl)
next
  case (Cons a as)
  from Cons.prems(1) obtain b1
    where inner: "gridSearchSequential_numEpochs dn d mn mx (Outpath hp) a (NumEpochs hp) best
                    = Inr b1"
      and rest: "gridSearchSequential_alpha dn d mn mx hp as b1 = Inr best'"
    by (auto split: sum.splits)
  from gridSearchSequential_numEpochs_min [OF inner Cons.prems(2)]
  have b1: "MSE b1 \<noteq> NaN" "MSE b1 \<le> MSE best"
    "\<forall>e\<in>set (NumEpochs hp). \<exists>mse p. evaluate dn d mn mx a e = Inr (mse, p) \<and>
                                     (mse = NaN \<or> MSE b1 \<le> mse)"
    by simp_all
  from Cons.IH [OF rest b1(1)]
  have ih: "MSE best' \<noteq> NaN" "MSE best' \<le> MSE b1"
    "\<forall>a\<in>set as. \<forall>e\<in>set (NumEpochs hp).
       \<exists>mse p. evaluate dn d mn mx a e = Inr (mse, p) \<and> (mse = NaN \<or> MSE best' \<le> mse)"
    by simp_all
  have "MSE best' \<le> MSE best"
    using ih(2) b1(2) by (rule float64_le_trans)
  moreover have "\<forall>e\<in>set (NumEpochs hp). \<exists>mse p. evaluate dn d mn mx a e = Inr (mse, p) \<and>
                                     (mse = NaN \<or> MSE best' \<le> mse)"
    using b1(3) ih(2) by (blast intro: float64_le_trans)
  ultimately show ?case using ih(1,3) by simp
qed

lemma runParallelGradientDescent_loop_min:
  assumes "runParallelGradientDescent_loop dn d mn mx out workArray best = Inr best'"
    and "MSE best \<noteq> NaN"
  shows "MSE best' \<noteq> NaN \<and> MSE best' \<le> MSE best \<and>
         (\<forall>h\<in>set workArray. \<exists>a as e es mse p.
            Alpha h = a # as \<and> NumEpochs h = e # es \<and>
            evaluate dn d mn mx a e = Inr (mse, p) \<and> (mse = NaN \<or> MSE best' \<le> mse))"
  using assms
proof (induction workArray arbitrary: best)
  case Nil
  then show ?case by (simp add: float64_le_refl)
next
  case (Cons h workArray)
  from Cons.prems(1) obtain a as e es mse p
    where h: "Alpha h = a # as" "NumEpochs h = e # es"
      and ev: "evaluate dn d mn mx a e = Inr (mse, p)"
      and rest: "runParallelGradientDescent_loop dn d mn mx out workArray
                   (improve out a e mse p best) = Inr best'"
    by (auto split: sum.splits list.splits)
  let ?b = "improve out a e mse p best"
  note b = improve_bounds [OF Cons.prems(2), where outpath = out and alpha = a
      and numEpochs = e and mse = mse and parameters = p]
  from Cons.IH [OF rest b(1)]
  have ih: "MSE best' \<noteq> NaN" "MSE best' \<le> MSE ?b"
    "\<forall>h\<in>set workArray. \<exists>a as e es mse p.
            Alpha h = a # as \<and> NumEpochs h = e # es \<and>
            evaluate dn d mn mx a e = Inr (mse, p) \<and> (mse = NaN \<or> MSE best' \<le> mse)"
    by simp_all
  have "MSE best' \<le> MSE best"
    using ih(2) b(2) by (rule float64_le_trans)
  moreover have "mse = NaN \<or> MSE best' \<le> mse"
    using b(3) ih(2) by (blast intro: float64_le_trans)
  ultimately show ?case using ih(1,3) ev h by simp
qed

text \<open>
  Claim C5, as amended. In the sequential search of a grid, and in the loop of every
  sub-worker of the parallel search, the best error so far starts at \<^verbatim>\<open>math.MaxFloat64\<close>
  (the largest finite float64, not \<open>+\<infinity>\<close>) and is replaced only by the error of a newly
  evaluated permutation that is strictly lower. The error the loop ends with is at most
  \<^verbatim>\<open>math.MaxFloat64\<close> and at most the error of every permutation it evaluated, errors that
  are NaN excepted. (How the sub-workers' results are merged into the result of the grid
  is the subject of claim C7.)
\<close>

theorem best_error_is_minimum:
  "MSE (initial_optimum outpath) = MaxFloat64 \<and>
   MSE (improve outpath alpha numEpochs mse parameters best) =
     (if mse < MSE best then mse else MSE best) \<and>
   (gridSearchSequential_task dn d mn mx hp = Inr best' \<longrightarrow>
      MSE best' \<le> MaxFloat64 \<and>
      (\<forall>a\<in>set (Alpha hp). \<forall>e\<in>set (NumEpochs hp).
         \<exists>m p. evaluate dn d mn mx a e = Inr (m, p) \<and> (m = NaN \<or> MSE best' \<le> m))) \<and>
   (runParallelGradientDescent_local dn d mn mx outpath workArray = Inr loc \<longrightarrow>
      MSE loc \<le> MaxFloat64 \<and>
      (\<forall>h\<in>set workArray. \<exists>a as e es m p.
         Alpha h = a # as \<and> NumEpochs h = e # es \<and>
         evaluate dn d mn mx a e = Inr (m, p) \<and> (m = NaN \<or> MSE loc \<le> m)))"
proof -
  have init: "MSE (initial_optimum s) = MaxFloat64" "MSE (initial_optimum s) \<noteq> NaN" for s
    by (simp_all add: initial_optimum_def MaxFloat64_not_NaN)
  have seq: "MSE best' \<le> MaxFloat64 \<and>
      (\<forall>a\<in>set (Alpha hp). \<forall>e\<in>set (NumEpochs hp).
         \<exists>m p. evaluate dn d mn mx a e = Inr (m, p) \<and> (m = NaN \<or> MSE best' \<le> m))"
    if "gridSearchSequential_task dn d mn mx hp = Inr best'"
    using gridSearchSequential_alpha_min [OF that [unfolded gridSearchSequential_task_def] init(2)]
    by (simp add: init(1))
  have par: "MSE loc \<le> MaxFloat64 \<and>
      (\<forall>h\<in>set workArray. \<exists>a as e es m p.
         Alpha h = a # as \<and> NumEpochs h = e # es \<and>
         evaluate dn d mn mx a e = Inr (m, p) \<and> (m = NaN \<or> MSE loc \<le> m))"
    if "runParallelGradientDescent_local dn d mn mx outpath workArray = Inr loc"
    using runParallelGradientDescent_loop_min
      [OF that [unfolded runParallelGradientDescent_local_def] init(2)]
    by (simp add: init(1))
  show ?thesis using init(1) MSE_improve seq par by blast
qed

lemma evaluate_example_0:
  "evaluate (Normalize example_data (Fin 0) (Fin 1)) example_data (Fin 0) (Fin 1)
     (Fin (1 / 2)) (Fin 0) = Inr (Fin (1 / 2), \<lparr>Mu = Fin 0, Beta = Fin 0\<rparr>)"
  by (simp add: evaluate_def example_data_def Normalize_def runGradientDescent_def
        UpdateParams_def calcGradientMu_def calcGradientBeta_def CalcMSE_def UnNormalize_def
        Pow2_def float64_of_len_def Let_def)

lemma evaluate_example_1:
  "evaluate (Normalize example_data (Fin 0) (Fin 1)) example_data (Fin 0) (Fin 1)
     (Fin (1 / 2)) (Fin 1) = Inr (Fin (1 / 8), \<lparr>Mu = Fin (1 / 2), Beta = Fin (1 / 2)\<rparr>)"
  by (simp add: evaluate_def example_data_def Normalize_def runGradientDescent_def
        UpdateParams_def calcGradientMu_def calcGradientBeta_def CalcMSE_def UnNormalize_def
        Pow2_def float64_of_len_def Let_def)

lemma evaluate_example_2:
  "evaluate (Normalize example_data (Fin 0) (Fin 1)) example_data (Fin 0) (Fin 1)
     (Fin (1 / 2)) (Fin 2) = Inr (Fin (1 / 16), \<lparr>Mu = Fin (1 / 4), Beta = Fin (1 / 2)\<rparr>)"
  by (simp add: evaluate_def example_data_def Normalize_def runGradientDescent_def
        UpdateParams_def calcGradientMu_def calcGradientBeta_def CalcMSE_def UnNormalize_def
        Pow2_def float64_of_len_def Let_def)

lemma MinMax_example: "MinMax (X example_data) = Inr (Fin 0, Fin 1)"
  by (simp add: MinMax_def example_data_def Let_def)

lemmas evaluate_example = evaluate_example_0 evaluate_example_1 evaluate_example_2

theorem best_error_is_minimum_witness:
  "gridSearchSequential_task (Normalize example_data (Fin 0) (Fin 1)) example_data (Fin 0) (Fin 1)
     grid3 =
     Inr \<lparr>HyperParams = point 2, MSE = Fin (1 / 16),
          ModelParams = \<lparr>Mu = Fin (1 / 4), Beta = Fin (1 / 2)\<rparr>\<rparr> \<and>
   runParallelGradientDescent_local (Normalize example_data (Fin 0) (Fin 1)) example_data
     (Fin 0) (Fin 1) ''out.csv'' [point 0, point 1] =
     Inr \<lparr>HyperParams = point 1, MSE = Fin (1 / 8),
          ModelParams = \<lparr>Mu = Fin (1 / 2), Beta = Fin (1 / 2)\<rparr>\<rparr> \<and>
   Fin (1 / 16) \<le> MaxFloat64 \<and> Fin (1 / 8) \<le> MaxFloat64"
proof -
  have s: "gridSearchSequential_task (Normalize example_data (Fin 0) (Fin 1)) example_data
             (Fin 0) (Fin 1) grid3 =
           Inr \<lparr>HyperParams = point 2, MSE = Fin (1 / 16),
                ModelParams = \<lparr>Mu = Fin (1 / 4), Beta = Fin (1 / 2)\<rparr>\<rparr>"
    by (simp add: gridSearchSequential_task_def grid3_def evaluate_example improve_def
          initial_optimum_def small_less_MaxFloat64 point_def)
  have l: "runParallelGradientDescent_local (Normalize example_data (Fin 0) (Fin 1)) example_data
             (Fin 0) (Fin 1) ''out.csv'' [point 0, point 1] =
           Inr \<lparr>HyperParams = point 1, MSE = Fin (1 / 8),
                ModelParams = \<lparr>Mu = Fin (1 / 2), Beta = Fin (1 / 2)\<rparr>\<rparr>"
    by (simp add: runParallelGradientDescent_local_def evaluate_example improve_def
          initial_optimum_def small_less_MaxFloat64 point_def)
  show ?thesis
    using best_error_is_minimum [where dn = "Normalize example_data (Fin 0) (Fin 1)"
        and d = example_data and mn = "Fin 0" and mx = "Fin 1" and hp = grid3
        and outpath = "''out.csv''" and workArray = "[point 0, point 1]"
        and best' = "\<lparr>HyperParams = point 2, MSE = Fin (1 / 16),
                        ModelParams = \<lparr>Mu = Fin (1 / 4), Beta = Fin (1 / 2)\<rparr>\<rparr>"
        and loc = "\<lparr>HyperParams = point 1, MSE = Fin (1 / 8),
                      ModelParams = \<lparr>Mu = Fin (1 / 2), Beta = Fin (1 / 2)\<rparr>\<rparr>"]
      s l
    by simp
qed

text \<open>
  The claim as stated fails on the dataset with the points \<open>(1, 2)\<close> and \<open>(1, 3)\<close>: the one
  permutation evaluated has the error NaN, the best error stays at \<^verbatim>\<open>math.MaxFloat64\<close>,
  which is not \<open>+\<infinity>\<close>, and \<^verbatim>\<open>math.MaxFloat64 <= NaN\<close> is false.
\<close>

theorem best_error_counterexample:
  "gridSearchSequential_task (Normalize degenerate_data (Fin 1) (Fin 1)) degenerate_data
     (Fin 1) (Fin 1) grid0 = Inr (initial_optimum ''out.csv'') \<and>
   MSE (initial_optimum ''out.csv'') = MaxFloat64 \<and>
   MaxFloat64 \<noteq> PInf \<and>
   evaluate (Normalize degenerate_data (Fin 1) (Fin 1)) degenerate_data (Fin 1) (Fin 1)
     (Fin 0) (Fin 0) = Inr (NaN, \<lparr>Mu = Fin 0, Beta = NaN\<rparr>) \<and>
   \<not> MaxFloat64 \<le> NaN"
  using evaluate_degenerate
  by (simp add: gridSearchSequential_task_def grid0_def improve_def initial_optimum_def
        MaxFloat64_def)

section \<open>Merging the sub-workers' results\<close>

lemma partition_grid3_1: "worker_partition (Suc 0) grid3 = [[point 0, point 1, point 2]]"
  by (simp add: worker_partition_def createArrayParamPermutations_def grid3_def point_def
        workSizePerThread_def numTotalParamSets_def)

lemma partition_grid3_2: "worker_partition 2 grid3 = [[point 0, point 1]]"
  by (simp add: worker_partition_def createArrayParamPermutations_def grid3_def point_def
        workSizePerThread_def numTotalParamSets_def)

lemma partition_grid2_2: "worker_partition 2 grid2 = [[point 0], [point 1]]"
  by (simp add: worker_partition_def createArrayParamPermutations_def grid2_def point_def
        workSizePerThread_def numTotalParamSets_def)

lemma local_example_012:
  "runParallelGradientDescent_local (Normalize example_data (Fin 0) (Fin 1)) example_data
     (Fin 0) (Fin 1) ''out.csv'' [point 0, point 1, point 2] =
     Inr \<lparr>HyperParams = point 2, MSE = Fin (1 / 16),
          ModelParams = \<lparr>Mu = Fin (1 / 4), Beta = Fin (1 / 2)\<rparr>\<rparr>"
  by (simp add: runParallelGradientDescent_local_def evaluate_example improve_def
        initial_optimum_def small_less_MaxFloat64 point_def)

lemma local_example_01:
  "runParallelGradientDescent_local (Normalize example_data (Fin 0) (Fin 1)) example_data
     (Fin 0) (Fin 1) ''out.csv'' [point 0, point 1] =
     Inr \<lparr>HyperParams = point 1, MSE = Fin (1 / 8),
          ModelParams = \<lparr>Mu = Fin (1 / 2), Beta = Fin (1 / 2)\<rparr>\<rparr>"
  by (simp add: runParallelGradientDescent_local_def evaluate_example improve_def
        initial_optimum_def small_less_MaxFloat64 point_def)

lemma local_example_0:
  "runParallelGradientDescent_local (Normalize example_data (Fin 0) (Fin 1)) example_data
     (Fin 0) (Fin 1) ''out.csv'' [point 0] =
     Inr \<lparr>HyperParams = point 0, MSE = Fin (1 / 2),
          ModelParams = \<lparr>Mu = Fin 0, Beta = Fin 0\<rparr>\<rparr>"
  by (simp add: runParallelGradientDescent_local_def evaluate_example improve_def
        initial_optimum_def small_less_MaxFloat64 point_def)

lemma local_example_1:
  "runParallelGradientDescent_local (Normalize example_data (Fin 0) (Fin 1)) example_data
     (Fin 0) (Fin 1) ''out.csv'' [point 1] =
     Inr \<lparr>HyperParams = point 1, MSE = Fin (1 / 8),
          ModelParams = \<lparr>Mu = Fin (1 / 2), Beta = Fin (1 / 2)\<rparr>\<rparr>"
  by (simp add: runParallelGradientDescent_local_def evaluate_example improve_def
        initial_optimum_def small_less_MaxFloat64 point_def)

lemma Outpath_grids: "Outpath grid2 = ''out.csv''" "Outpath grid3 = ''out.csv''"
  by (simp_all add: grid2_def grid3_def)

text \<open>
  Claim C6. One sub-worker and several should find the same least error. On the grid with
  three permutations, whose errors are \<open>1/2\<close>, \<open>1/8\<close> and \<open>1/16\<close>, one thread gives the
  error \<open>1/16\<close>; two threads give \<open>1/8\<close>, because the partition hands out the first two
  permutations only. In both runs a single sub-worker is launched, and the schedule is
  its four steps.
\<close>

theorem one_and_two_subworkers_differ:
  "(\<exists>s. worker_task [0, 0, 0, 0] example_data 1 grid3 = Inr s \<and> group_Wait_returns s \<and>
        MSE (globalOptimal s) = Fin (1 / 16)) \<and>
   (\<exists>s. worker_task [0, 0, 0, 0] example_data 2 grid3 = Inr s \<and> group_Wait_returns s \<and>
        MSE (globalOptimal s) = Fin (1 / 8))"
  by (simp add: worker_task_def MinMax_example worker_launch_def partition_grid3_1
        partition_grid3_2 Outpath_grids local_example_012 local_example_01
        subworker_step_def initial_optimum_def small_less_MaxFloat64 group_Wait_returns_def)

text \<open>
  Claim C7. The comparison with the shared best error should be made under the lock that
  guards the write. In the code it is made before \<^verbatim>\<open>Lock()\<close>: after its first step
  sub-worker \<open>0\<close> has compared and the lock is free. So two sub-workers can both compare
  against \<^verbatim>\<open>math.MaxFloat64\<close>; when the one with the error \<open>1/8\<close> writes first and the one
  with \<open>1/2\<close> second, the grid's result is \<open>1/2\<close>: the better update is lost.
\<close>

theorem compare_outside_lock_loses_update:
  "(\<exists>s. worker_task [0] example_data 2 grid2 = Inr s \<and>
        stage (subworkers s ! 0) = AtLock \<and> globalParamLock s = None) \<and>
   (\<exists>s. worker_task [0, 1, 1, 1, 1, 0, 0, 0] example_data 2 grid2 = Inr s \<and>
        group_Wait_returns s \<and>
        MSE (localOptimal (subworkers s ! 1)) = Fin (1 / 8) \<and>
        MSE (globalOptimal s) = Fin (1 / 2))"
  by (simp add: worker_task_def MinMax_example worker_launch_def partition_grid2_2
        Outpath_grids local_example_0 local_example_1
        subworker_step_def initial_optimum_def small_less_MaxFloat64 group_Wait_returns_def)

end
